theory Spec2Isabelle
  imports Complex_Main "HOL-Library.Char_ord" "HOL-Library.List_Lexorder"
begin

section \<open>JavaScript values used by the analytics engine\<close>

text \<open>
  The engine computes with JavaScript numbers.  A number is modelled as \<open>NaN\<close>, one of the
  two infinities, or a finite value held as an exact rational: rounding, overflow and
  underflow of IEEE doubles, and the sign of zero, are outside the model.  Strings are lists
  of code units below 256 (\<open>char\<close>).
\<close>

datatype jsnum = NaN | NInf | Fin rat | PInf

definition isNaN :: "jsnum \<Rightarrow> bool" where
  "isNaN x = (x = NaN)"

fun isFinite :: "jsnum \<Rightarrow> bool" where
  "isFinite (Fin r) = True"
| "isFinite _ = False"

fun js_neg :: "jsnum \<Rightarrow> jsnum" where
  "js_neg NaN = NaN"
| "js_neg NInf = PInf"
| "js_neg (Fin r) = Fin (- r)"
| "js_neg PInf = NInf"

fun js_add :: "jsnum \<Rightarrow> jsnum \<Rightarrow> jsnum" where
  "js_add (Fin a) (Fin b) = Fin (a + b)"
| "js_add NaN _ = NaN"
| "js_add _ NaN = NaN"
| "js_add PInf NInf = NaN"
| "js_add NInf PInf = NaN"
| "js_add PInf _ = PInf"
| "js_add _ PInf = PInf"
| "js_add NInf _ = NInf"
| "js_add _ NInf = NInf"

definition js_sub :: "jsnum \<Rightarrow> jsnum \<Rightarrow> jsnum" where
  "js_sub a b = js_add a (js_neg b)"

fun js_mul :: "jsnum \<Rightarrow> jsnum \<Rightarrow> jsnum" where
  "js_mul (Fin a) (Fin b) = Fin (a * b)"
| "js_mul NaN _ = NaN"
| "js_mul _ NaN = NaN"
| "js_mul (Fin a) PInf = (if a = 0 then NaN else if 0 < a then PInf else NInf)"
| "js_mul (Fin a) NInf = (if a = 0 then NaN else if 0 < a then NInf else PInf)"
| "js_mul PInf (Fin b) = (if b = 0 then NaN else if 0 < b then PInf else NInf)"
| "js_mul NInf (Fin b) = (if b = 0 then NaN else if 0 < b then NInf else PInf)"
| "js_mul PInf PInf = PInf"
| "js_mul NInf NInf = PInf"
| "js_mul PInf NInf = NInf"
| "js_mul NInf PInf = NInf"

text \<open>The relational operators \<open>a > b\<close> and \<open>a < b\<close>: false whenever an operand is \<open>NaN\<close>.\<close>

fun js_gt :: "jsnum \<Rightarrow> jsnum \<Rightarrow> bool" where
  "js_gt NaN _ = False"
| "js_gt _ NaN = False"
| "js_gt (Fin a) (Fin b) = (b < a)"
| "js_gt PInf PInf = False"
| "js_gt PInf _ = True"
| "js_gt _ PInf = False"
| "js_gt NInf _ = False"
| "js_gt _ NInf = True"

definition js_lt :: "jsnum \<Rightarrow> jsnum \<Rightarrow> bool" where
  "js_lt a b = js_gt b a"


text \<open>\<open>Math.max(0, x)\<close>.\<close>

fun max0 :: "jsnum \<Rightarrow> jsnum" where
  "max0 NaN = NaN"
| "max0 NInf = Fin 0"
| "max0 (Fin r) = Fin (max 0 r)"
| "max0 PInf = PInf"

text \<open>Truthiness of a number: \<open>NaN\<close> and zero are falsy.\<close>

definition truthy :: "jsnum \<Rightarrow> bool" where
  "truthy x = (x \<noteq> NaN \<and> x \<noteq> Fin 0)"

subsection \<open>Strings\<close>

definition isWhiteSpace :: "char \<Rightarrow> bool" where
  "isWhiteSpace c = ((of_char c :: nat) \<in> {9, 10, 11, 12, 13, 32, 160})"

definition trimStart :: "string \<Rightarrow> string" where
  "trimStart s = dropWhile isWhiteSpace s"

definition trim :: "string \<Rightarrow> string" where
  "trim s = rev (dropWhile isWhiteSpace (rev (dropWhile isWhiteSpace s)))"

text \<open>\<open>toLowerCase\<close> maps the letters \<open>A\<close> to \<open>Z\<close>; the model covers ASCII text.\<close>

definition lowerChar :: "char \<Rightarrow> char" where
  "lowerChar c = (case map_of (zip ''ABCDEFGHIJKLMNOPQRSTUVWXYZ'' ''abcdefghijklmnopqrstuvwxyz'') c of
       None \<Rightarrow> c
     | Some l \<Rightarrow> l)"

definition toLowerCase :: "string \<Rightarrow> string" where
  "toLowerCase s = map lowerChar s"

definition isDigit :: "char \<Rightarrow> bool" where
  "isDigit c = (48 \<le> (of_char c :: nat) \<and> (of_char c :: nat) \<le> 57)"

text \<open>The value of a digit in radix up to 16, if it is one.\<close>

definition digitValue :: "char \<Rightarrow> nat option" where
  "digitValue c = (let n = (of_char c :: nat) in
     if 48 \<le> n \<and> n \<le> 57 then Some (n - 48)
     else if 97 \<le> n \<and> n \<le> 102 then Some (n - 87)
     else if 65 \<le> n \<and> n \<le> 70 then Some (n - 55)
     else None)"

definition isRadixDigit :: "nat \<Rightarrow> char \<Rightarrow> bool" where
  "isRadixDigit radix c = (case digitValue c of None \<Rightarrow> False | Some v \<Rightarrow> v < radix)"

definition radixValue :: "nat \<Rightarrow> string \<Rightarrow> int" where
  "radixValue radix ds = foldl (\<lambda>a c. int radix * a + int (the (digitValue c))) 0 ds"

subsection \<open>\<open>parseInt\<close> and \<open>Number\<close> on strings\<close>

text \<open>
  \<open>parseInt(s, 10)\<close> and \<open>parseInt(s)\<close>: leading white space is skipped, a sign is read,
  without a radix argument a prefix \<open>0x\<close> selects radix 16, and the longest prefix of
  digits is converted.  The result is an integer, or \<open>NaN\<close> (here \<open>None\<close>) when there is
  no digit; \<open>numOf\<close> reads it as a number.
\<close>

definition numOf :: "int option \<Rightarrow> jsnum" where
  "numOf z = (case z of None \<Rightarrow> NaN | Some i \<Rightarrow> Fin (of_int i))"

definition stripSign :: "string \<Rightarrow> bool \<times> string" where
  "stripSign s = (case s of
       c # r \<Rightarrow> (if c = CHR ''-'' then (True, r) else if c = CHR ''+'' then (False, r) else (False, s))
     | [] \<Rightarrow> (False, s))"

definition parseDigits :: "nat \<Rightarrow> bool \<Rightarrow> string \<Rightarrow> int option" where
  "parseDigits radix negative s = (let z = takeWhile (isRadixDigit radix) s in
     if z = [] then None
     else Some (if negative then - radixValue radix z else radixValue radix z))"

definition parseInt10 :: "string \<Rightarrow> int option" where
  "parseInt10 s = (let (negative, r) = stripSign (trimStart s) in parseDigits 10 negative r)"

definition parseInt :: "string \<Rightarrow> int option" where
  "parseInt s = (let (negative, r) = stripSign (trimStart s) in
     if take 2 r = ''0x'' \<or> take 2 r = ''0X'' then parseDigits 16 negative (drop 2 r)
     else parseDigits 10 negative r)"

text \<open>
  \<open>Number(s)\<close> on a string: white space is trimmed, the empty string is 0, then the whole
  string has to be \<open>Infinity\<close> with an optional sign, a hexadecimal, octal or binary
  literal, or a signed decimal literal with optional fraction and exponent.
\<close>

definition parseExponent :: "string \<Rightarrow> int option" where
  "parseExponent s = (case s of
       [] \<Rightarrow> Some 0
     | c # r \<Rightarrow>
         if c = CHR ''e'' \<or> c = CHR ''E'' then
           (let (negative, ds) = stripSign r in
            if ds \<noteq> [] \<and> list_all isDigit ds
            then Some (if negative then - radixValue 10 ds else radixValue 10 ds)
            else None)
         else None)"

definition parseUnsignedDecimal :: "string \<Rightarrow> rat option" where
  "parseUnsignedDecimal s = (let ip = takeWhile isDigit s; r1 = dropWhile isDigit s;
       fp = (case r1 of c # r \<Rightarrow> if c = CHR ''.'' then takeWhile isDigit r else [] | [] \<Rightarrow> []);
       r2 = (case r1 of c # r \<Rightarrow> if c = CHR ''.'' then dropWhile isDigit r else r1 | [] \<Rightarrow> [])
     in if ip = [] \<and> fp = [] then None
        else (case parseExponent r2 of
                None \<Rightarrow> None
              | Some e \<Rightarrow> Some (of_int (radixValue 10 (ip @ fp)) * 10 powi (e - int (length fp)))))"

definition parseRadixLiteral :: "string \<Rightarrow> int option" where
  "parseRadixLiteral s = (let p = take 2 s; ds = drop 2 s;
       radix = (if p = ''0x'' \<or> p = ''0X'' then 16 else if p = ''0o'' \<or> p = ''0O'' then 8
                else if p = ''0b'' \<or> p = ''0B'' then 2 else 0)
     in if radix \<noteq> 0 \<and> ds \<noteq> [] \<and> list_all (isRadixDigit radix) ds
        then Some (radixValue radix ds) else None)"

definition Number :: "string \<Rightarrow> jsnum" where
  "Number s = (let t = trim s in
     if t = [] then Fin 0
     else if t = ''Infinity'' \<or> t = ''+Infinity'' then PInf
     else if t = ''-Infinity'' then NInf
     else (case parseRadixLiteral t of
             Some n \<Rightarrow> Fin (of_int n)
           | None \<Rightarrow>
               (let (negative, r) = stripSign t in
                case parseUnsignedDecimal r of
                  None \<Rightarrow> NaN
                | Some v \<Rightarrow> Fin (if negative then - v else v))))"

section \<open>Transfers and the value and time normalizers\<close>

text \<open>
  A transfer record as the feed delivers it: every field is a string, or absent
  (\<open>None\<close> stands for \<open>undefined\<close>).
\<close>

record transfer =
  tx_from :: "string option"
  tx_to :: "string option"
  tx_value :: "string option"
  tokenDecimal :: "string option"
  timeStamp :: "string option"
  functionName :: "string option"

text \<open>\<open>x || d\<close> on an optional string: absent and empty are falsy.\<close>

definition orElse :: "string option \<Rightarrow> string \<Rightarrow> string" where
  "orElse x d = (case x of None \<Rightarrow> d | Some s \<Rightarrow> if s = [] then d else s)"

definition toMs :: "string option \<Rightarrow> jsnum" where
  "toMs ts = (case ts of
       None \<Rightarrow> NaN
     | Some raw \<Rightarrow>
         (let s = trim raw; n = Number s in
          if isNaN n then NaN
          else if length s \<le> 10 then js_mul n (Fin 1000) else n))"

text \<open>
  \<open>parseInt(tx.tokenDecimal || "18", 10) || 18\<close>: the result of \<open>parseInt\<close> is replaced
  by 18 when it is falsy, that is \<open>NaN\<close> or 0.  What is left is a non-zero integer.
\<close>

definition decimalsOf :: "transfer \<Rightarrow> int" where
  "decimalsOf tx = (case parseInt10 (orElse (tokenDecimal tx) ''18'') of
       None \<Rightarrow> 18
     | Some d \<Rightarrow> if d = 0 then 18 else d)"

definition parseValue :: "transfer \<Rightarrow> jsnum" where
  "parseValue tx = (let decimals = decimalsOf tx;
       raw = (case tx_value tx of None \<Rightarrow> Fin 0 | Some v \<Rightarrow> Number v)
     in case raw of
          Fin r \<Rightarrow> Fin (r / 10 powi decimals)
        | _ \<Rightarrow> Fin 0)"

section \<open>Dates\<close>

text \<open>
  A \<open>Date\<close> object holds a time value in milliseconds since the epoch, or is invalid
  (\<open>None\<close>; its accessors then return \<open>NaN\<close>).  Local time is the time value shifted by a
  fixed offset \<open>tz\<close> in milliseconds, a parameter of every function that reads the local
  calendar; zones that change their offset are outside the model.  The calendar is the
  proleptic Gregorian one.
\<close>

type_synonym jsdate = "int option"

definition msPerDay :: int where
  "msPerDay = 86400000"

definition maxTime :: int where
  "maxTime = 8640000000000000"

definition truncNum :: "rat \<Rightarrow> int" where
  "truncNum r = (if r < 0 then - \<lfloor>- r\<rfloor> else \<lfloor>r\<rfloor>)"

definition newDate :: "jsnum \<Rightarrow> jsdate" where
  "newDate v = (case v of
       Fin r \<Rightarrow> if \<bar>r\<bar> \<le> of_int maxTime then Some (truncNum r) else None
     | _ \<Rightarrow> None)"

definition getTime :: "jsdate \<Rightarrow> jsnum" where
  "getTime d = numOf d"

definition localDay :: "int \<Rightarrow> int \<Rightarrow> int" where
  "localDay tz t = (t + tz) div msPerDay"

text \<open>Year, month index (0 to 11) and day of the month of a day number counted from the epoch.\<close>

definition civil :: "int \<Rightarrow> int \<times> int \<times> int" where
  "civil z0 = (let z = z0 + 719468; era = z div 146097; doe = z mod 146097;
       yoe = (doe - doe div 1460 + doe div 36524 - doe div 146096) div 365;
       doy = doe - (365 * yoe + yoe div 4 - yoe div 100);
       mp = (5 * doy + 2) div 153;
       d = doy - (153 * mp + 2) div 5 + 1;
       m = (if mp < 10 then mp + 3 else mp - 9);
       y = yoe + era * 400 + (if m \<le> 2 then 1 else 0)
     in (y, m - 1, d))"

definition getFullYear :: "int \<Rightarrow> jsdate \<Rightarrow> int option" where
  "getFullYear tz d = map_option (\<lambda>t. fst (civil (localDay tz t))) d"

definition getMonth :: "int \<Rightarrow> jsdate \<Rightarrow> int option" where
  "getMonth tz d = map_option (\<lambda>t. fst (snd (civil (localDay tz t)))) d"

definition getDate :: "int \<Rightarrow> jsdate \<Rightarrow> int option" where
  "getDate tz d = map_option (\<lambda>t. snd (snd (civil (localDay tz t)))) d"

text \<open>\<open>d.setHours(h, m, s, ms)\<close>: the same local day at the given local time of day.\<close>

definition setHours :: "int \<Rightarrow> int \<Rightarrow> int \<Rightarrow> int \<Rightarrow> int \<Rightarrow> jsdate \<Rightarrow> jsdate" where
  "setHours tz h m s ms d = (case d of
       None \<Rightarrow> None
     | Some t \<Rightarrow> newDate (Fin (of_int
         (localDay tz t * msPerDay + (h * 3600000 + m * 60000 + s * 1000 + ms) - tz))))"

text \<open>An integer, or \<open>NaN\<close>, inside a template literal.\<close>

function showNat :: "int \<Rightarrow> string" where
  "showNat n = (if n < 10 then [''0123456789'' ! nat n]
     else showNat (n div 10) @ [''0123456789'' ! nat (n mod 10)])"
  by pat_completeness auto
termination
  by (relation "measure nat") auto

declare showNat.simps [simp del]

definition showNum :: "int option \<Rightarrow> string" where
  "showNum v = (case v of
       None \<Rightarrow> ''NaN''
     | Some i \<Rightarrow> if i < 0 then CHR ''-'' # showNat (- i) else showNat i)"

text \<open>The two day keys: \<open>`${getMonth() + 1}/${getDate()}`\<close> and
  \<open>`${getFullYear()}-${getMonth()}-${getDate()}`\<close>.\<close>

definition monthDayKey :: "int \<Rightarrow> jsdate \<Rightarrow> string" where
  "monthDayKey tz d = showNum (map_option (\<lambda>m. m + 1) (getMonth tz d)) @ ''/'' @ showNum (getDate tz d)"

definition yearMonthDayKey :: "int \<Rightarrow> jsdate \<Rightarrow> string" where
  "yearMonthDayKey tz d =
     showNum (getFullYear tz d) @ ''-'' @ showNum (getMonth tz d) @ ''-'' @ showNum (getDate tz d)"

text \<open>\<open>toLocaleDateString()\<close>, in the \<open>en-US\<close> locale.\<close>

definition toLocaleDateString :: "int \<Rightarrow> jsdate \<Rightarrow> string" where
  "toLocaleDateString tz d = (case d of
       None \<Rightarrow> ''Invalid Date''
     | Some t \<Rightarrow> monthDayKey tz d @ ''/'' @ showNum (getFullYear tz d))"

text \<open>\<open>new Date(now - i * 24 * 60 * 60 * 1000)\<close>, with \<open>now = Date.now()\<close> an integer.\<close>

definition daysAgo :: "int \<Rightarrow> nat \<Rightarrow> jsdate" where
  "daysAgo now i = newDate (Fin (of_int (now - int i * msPerDay)))"

section \<open>The daily aggregator\<close>

record TransactionData =
  day :: string
  received :: jsnum
  sent :: jsnum
  net :: jsnum

definition emptyBucket :: "string \<Rightarrow> TransactionData" where
  "emptyBucket k = \<lparr>day = k, received = Fin 0, sent = Fin 0, net = Fin 0\<rparr>"

definition tenDaysMs :: int where
  "tenDaysMs = 10 * 24 * 60 * 60 * 1000"

text \<open>The body of the \<open>forEach\<close> of \<open>groupTransactionsByDay\<close>, on the object \<open>dayMap\<close>.\<close>

definition groupStep ::
  "int \<Rightarrow> int \<Rightarrow> string \<Rightarrow> transfer \<Rightarrow> (string \<rightharpoonup> TransactionData) \<Rightarrow> (string \<rightharpoonup> TransactionData)" where
  "groupStep tz now address tx dayMap = (let txTime = toMs (timeStamp tx) in
     if isNaN txTime then dayMap
     else if js_gt (js_sub (Fin (of_int now)) txTime) (Fin (of_int tenDaysMs)) then dayMap
     else
       (let dateKey = monthDayKey tz (newDate txTime);
            b = (case dayMap dateKey of None \<Rightarrow> emptyBucket dateKey | Some b0 \<Rightarrow> b0);
            v = parseValue tx;
            b1 = (if toLowerCase (orElse (tx_to tx) []) = toLowerCase address
                    then b\<lparr>received := js_add (received b) v\<rparr>
                  else if toLowerCase (orElse (tx_from tx) []) = toLowerCase address
                    then b\<lparr>sent := js_add (sent b) v\<rparr>
                  else b)
        in dayMap(dateKey \<mapsto> b1\<lparr>net := js_sub (received b1) (sent b1)\<rparr>)))"

definition groupTransactionsByDay :: "int \<Rightarrow> int \<Rightarrow> transfer list \<Rightarrow> string \<Rightarrow> TransactionData list" where
  "groupTransactionsByDay tz now transfers address =
     (let dayMap = foldl (\<lambda>m tx. groupStep tz now address tx m) Map.empty transfers
      in map (\<lambda>i. let dateKey = monthDayKey tz (daysAgo now i)
                   in (case dayMap dateKey of None \<Rightarrow> emptyBucket dateKey | Some b \<Rightarrow> b))
             (rev [0..<10]))"

section \<open>The balance reconstructor\<close>

record enriched =
  timeMs :: jsnum
  delta :: jsnum

definition enrich :: "string \<Rightarrow> transfer \<Rightarrow> enriched" where
  "enrich user tx = (let toAddr = toLowerCase (orElse (tx_to tx) []);
       fromAddr = toLowerCase (orElse (tx_from tx) []);
       v = parseValue tx
     in \<lparr>timeMs = toMs (timeStamp tx),
         delta = (if toAddr = user then v else if fromAddr = user then js_neg v else Fin 0)\<rparr>)"

text \<open>
  \<open>Array.prototype.sort\<close> with a comparator is stable; it is modelled as insertion sort,
  where \<open>x\<close> goes behind \<open>y\<close> exactly when the comparator's result on them is positive.
\<close>

fun insertBy :: "('a \<Rightarrow> 'a \<Rightarrow> jsnum) \<Rightarrow> 'a \<Rightarrow> 'a list \<Rightarrow> 'a list" where
  "insertBy cmp x [] = [x]"
| "insertBy cmp x (y # ys) = (if js_gt (cmp x y) (Fin 0) then y # insertBy cmp x ys else x # y # ys)"

definition sortBy :: "('a \<Rightarrow> 'a \<Rightarrow> jsnum) \<Rightarrow> 'a list \<Rightarrow> 'a list" where
  "sortBy cmp xs = foldr (insertBy cmp) xs []"

definition enrichedOf :: "transfer list \<Rightarrow> string \<Rightarrow> enriched list" where
  "enrichedOf rawTransfers user =
     sortBy (\<lambda>a b. js_sub (timeMs a) (timeMs b))
       (filter (\<lambda>e. \<not> isNaN (timeMs e)) (map (enrich user) rawTransfers))"

text \<open>
  The suffix sums: \<open>for (i = deltas.length - 1; i >= 0; i--) { s += deltas[i]; suffixSum[i] = s }\<close>
  on an array of holes (\<open>None\<close>).  The first argument of the loop is \<open>i + 1\<close>.
\<close>

fun suffixLoop :: "nat \<Rightarrow> jsnum list \<Rightarrow> jsnum \<Rightarrow> jsnum option list \<Rightarrow> jsnum option list" where
  "suffixLoop 0 deltas s suffixSum = suffixSum"
| "suffixLoop (Suc i) deltas s suffixSum =
     (let s' = js_add s (deltas ! i) in suffixLoop i deltas s' (suffixSum[i := Some s']))"

definition suffixSums :: "jsnum list \<Rightarrow> jsnum option list" where
  "suffixSums deltas = suffixLoop (length deltas) deltas (Fin 0) (replicate (length deltas) None)"

text \<open>An array read \<open>xs[i]\<close>: \<open>undefined\<close> (\<open>None\<close>) outside the array.\<close>

definition arrayAt :: "'a list \<Rightarrow> int \<Rightarrow> 'a option" where
  "arrayAt xs i = (if 0 \<le> i \<and> i < int (length xs) then Some (xs ! nat i) else None)"

function searchLoop :: "jsnum list \<Rightarrow> jsnum \<Rightarrow> int \<Rightarrow> int \<Rightarrow> int \<Rightarrow> int" where
  "searchLoop tms t lo hi ans =
     (if lo \<le> hi then
        (let mid = (lo + hi) div 2 in
         if (case arrayAt tms mid of None \<Rightarrow> False | Some v \<Rightarrow> js_gt v t)
         then searchLoop tms t lo (mid - 1) mid
         else searchLoop tms t (mid + 1) hi ans)
      else ans)"
  by pat_completeness auto
termination
  by (relation "measure (\<lambda>(tms, t, lo, hi, ans). nat (hi - lo + 1))") auto

declare searchLoop.simps [simp del]

definition sumDeltasAfterIn :: "jsnum list \<Rightarrow> jsnum option list \<Rightarrow> jsnum \<Rightarrow> jsnum" where
  "sumDeltasAfterIn tms suffixSum t =
     (let ans = searchLoop tms t 0 (int (length tms) - 1) (int (length tms)) in
      if ans \<ge> int (length tms) then Fin 0
      else (case arrayAt suffixSum ans of
              Some (Some v) \<Rightarrow> if truthy v then v else Fin 0
            | _ \<Rightarrow> Fin 0))"

text \<open>The closure \<open>sumDeltasAfter\<close> as a function of what it captures.\<close>

definition sumDeltasAfter :: "transfer list \<Rightarrow> string \<Rightarrow> jsnum \<Rightarrow> jsnum" where
  "sumDeltasAfter rawTransfers userAddress t =
     (let es = enrichedOf rawTransfers (toLowerCase (orElse (Some userAddress) []))
      in sumDeltasAfterIn (map timeMs es) (suffixSums (map delta es)) t)"

record BalanceChartData =
  bday :: string
  balance :: jsnum

definition endOfDay :: "int \<Rightarrow> int \<Rightarrow> nat \<Rightarrow> jsdate" where
  "endOfDay tz now i = setHours tz 23 59 59 999 (daysAgo now i)"

definition generateBalanceChartFromCurrent ::
  "int \<Rightarrow> int \<Rightarrow> transfer list \<Rightarrow> string \<Rightarrow> jsnum \<Rightarrow> BalanceChartData list" where
  "generateBalanceChartFromCurrent tz now rawTransfers userAddress currentBalance =
     map (\<lambda>i. let d = endOfDay tz now i;
                  tEnd = getTime d;
                  dateKey = monthDayKey tz d;
                  after = sumDeltasAfter rawTransfers userAddress tEnd;
                  balanceAtEnd = js_sub currentBalance after;
                  balanceAtEnd' = (if isNaN balanceAtEnd then Fin 0 else balanceAtEnd)
              in \<lparr>bday = dateKey, balance = max0 balanceAtEnd'\<rparr>)
         (rev [0..<10])"

section \<open>The streak calculator\<close>

definition activeDays :: "int \<Rightarrow> transfer list \<Rightarrow> string list" where
  "activeDays tz transfers =
     foldl (\<lambda>days tx. let txTime = toMs (timeStamp tx) in
              if isNaN txTime then days
              else (let dateKey = yearMonthDayKey tz (newDate txTime)
                    in if dateKey \<in> set days then days else days @ [dateKey]))
       [] transfers"

definition oneDayBefore :: "jsdate \<Rightarrow> jsdate" where
  "oneDayBefore d = newDate (js_sub (getTime d) (Fin (of_int msPerDay)))"

function streakLoop :: "int \<Rightarrow> string list \<Rightarrow> nat \<Rightarrow> jsdate \<Rightarrow> nat \<Rightarrow> nat" where
  "streakLoop tz sortedDays i currentDate streak =
     (if i < length sortedDays then
        (let checkKey = yearMonthDayKey tz (setHours tz 0 0 0 0 currentDate) in
         if checkKey \<in> set sortedDays
           then streakLoop tz sortedDays (i + 1) (oneDayBefore currentDate) (streak + 1)
         else if i = 0 then
           (let currentDate' = oneDayBefore currentDate;
                yesterdayKey = yearMonthDayKey tz currentDate'
            in if yesterdayKey \<in> set sortedDays
                 then streakLoop tz sortedDays (i + 1) (oneDayBefore currentDate') (streak + 1)
               else streak)
         else streak)
      else streak)"
  by pat_completeness auto
termination
  by (relation "measure (\<lambda>(tz, sortedDays, i, currentDate, streak). length sortedDays - i)") auto

declare streakLoop.simps [simp del]

definition calculateActiveStreak :: "int \<Rightarrow> int \<Rightarrow> transfer list \<Rightarrow> nat" where
  "calculateActiveStreak tz now transfers =
     (if length transfers = 0 then 0
      else (let sortedDays = rev (sort (activeDays tz transfers))
            in streakLoop tz sortedDays 0 (newDate (Fin (of_int now))) 0))"

section \<open>The stats aggregator\<close>

definition HANDLEOPS_ADDRESS :: string where
  "HANDLEOPS_ADDRESS = ''0x7f136881b236ed9a403da7a7dd632e9d0390eb63''"

text \<open>\<open>s.includes(p)\<close>.\<close>

fun stringIncludes :: "string \<Rightarrow> string \<Rightarrow> bool" where
  "stringIncludes [] p = (p = [])"
| "stringIncludes (c # s) p = (take (length p) (c # s) = p \<or> stringIncludes s p)"

text \<open>\<open>parseInt(tx.timeStamp)\<close>: an absent field is read as the string \<open>undefined\<close>.\<close>

definition parseIntTimeStamp :: "transfer \<Rightarrow> jsnum" where
  "parseIntTimeStamp tx = numOf (parseInt (case timeStamp tx of None \<Rightarrow> ''undefined'' | Some s \<Rightarrow> s))"

definition firstTxStep :: "transfer option \<Rightarrow> transfer \<Rightarrow> transfer option" where
  "firstTxStep earliest tx = (case earliest of
       None \<Rightarrow> Some tx
     | Some e \<Rightarrow> if js_lt (parseIntTimeStamp tx) (parseIntTimeStamp e) then Some tx else Some e)"

definition firstTx :: "transfer list \<Rightarrow> transfer option" where
  "firstTx transfers = foldl firstTxStep None transfers"

definition walletCreatedDate :: "int \<Rightarrow> transfer list \<Rightarrow> string" where
  "walletCreatedDate tz transfers = (case firstTx transfers of
       Some tx \<Rightarrow> toLocaleDateString tz (newDate (js_mul (parseIntTimeStamp tx) (Fin 1000)))
     | None \<Rightarrow> ''Unknown'')"

text \<open>The variables the \<open>forEach\<close> of \<open>processTransactionData\<close> updates.\<close>

record accum =
  balanceTenDaysAgo :: jsnum
  receivedLast10Days :: jsnum
  sentLast10Days :: jsnum
  buySharesTotal :: jsnum
  buySharesCount :: nat

definition accum0 :: accum where
  "accum0 = \<lparr>balanceTenDaysAgo = Fin 0, receivedLast10Days = Fin 0, sentLast10Days = Fin 0,
     buySharesTotal = Fin 0, buySharesCount = 0\<rparr>"

definition statsStep :: "int \<Rightarrow> string \<Rightarrow> accum \<Rightarrow> transfer \<Rightarrow> accum" where
  "statsStep now userAddress a tx = (let txTime = toMs (timeStamp tx) in
     if isNaN txTime then a
     else
       (let v = parseValue tx;
            tenDaysAgo = Fin (of_int (now - tenDaysMs));
            isBuyShares = (stringIncludes (orElse (functionName tx) []) ''handleOps'' \<and>
              toLowerCase (orElse (tx_to tx) []) = toLowerCase HANDLEOPS_ADDRESS);
            a1 = (if isBuyShares
                  then a\<lparr>buySharesTotal := js_add (buySharesTotal a) v, buySharesCount := buySharesCount a + 1\<rparr>
                  else a)
        in if toLowerCase (orElse (tx_to tx) []) = toLowerCase userAddress then
             (if js_lt txTime tenDaysAgo
              then a1\<lparr>balanceTenDaysAgo := js_add (balanceTenDaysAgo a1) v\<rparr>
              else a1\<lparr>receivedLast10Days := js_add (receivedLast10Days a1) v\<rparr>)
           else if toLowerCase (orElse (tx_from tx) []) = toLowerCase userAddress then
             (if js_lt txTime tenDaysAgo
              then a1\<lparr>balanceTenDaysAgo := js_sub (balanceTenDaysAgo a1) v\<rparr>
              else a1\<lparr>sentLast10Days := js_add (sentLast10Days a1) v\<rparr>)
           else a1))"

definition totalReceived :: "transfer list \<Rightarrow> string \<Rightarrow> jsnum" where
  "totalReceived transfers userAddress =
     foldl (\<lambda>sum tx. js_add sum (parseValue tx)) (Fin 0)
       (filter (\<lambda>tx. toLowerCase (orElse (tx_to tx) []) = toLowerCase userAddress) transfers)"

definition totalSent :: "transfer list \<Rightarrow> string \<Rightarrow> jsnum" where
  "totalSent transfers userAddress =
     foldl (\<lambda>sum tx. js_add sum (parseValue tx)) (Fin 0)
       (filter (\<lambda>tx. toLowerCase (orElse (tx_from tx) []) = toLowerCase userAddress) transfers)"

text \<open>
  The summary, with every amount as computed: the source formats the amounts with
  \<open>toFixed(2)\<close> only when it stores them.
\<close>

record Stats =
  st_address :: string
  st_totalReceived :: jsnum
  st_totalSent :: jsnum
  st_netBalance :: jsnum
  st_totalTransactions :: nat
  st_receiveCount :: nat
  st_sendCount :: nat
  st_currentBalance :: jsnum
  st_balanceTenDaysAgo :: jsnum
  st_netChange :: jsnum
  st_netChangeLast10Days :: jsnum
  st_buySharesTotal :: jsnum
  st_buySharesCount :: nat
  st_activeStreak :: nat
  st_walletCreatedDate :: string

record engineOutput =
  txData :: "TransactionData list"
  chartData :: "BalanceChartData list"
  stats :: Stats

definition processTransactionData :: "int \<Rightarrow> int \<Rightarrow> transfer list \<Rightarrow> string \<Rightarrow> engineOutput" where
  "processTransactionData tz now transfers userAddress =
     (let created = walletCreatedDate tz transfers;
          activeStreak = calculateActiveStreak tz now transfers;
          a = foldl (statsStep now userAddress) accum0 transfers;
          received = totalReceived transfers userAddress;
          sent = totalSent transfers userAddress;
          currentBalance = js_sub received sent;
          netChangeLast10Days = js_sub (receivedLast10Days a) (sentLast10Days a);
          dailyTx = groupTransactionsByDay tz now transfers userAddress;
          balanceChart = generateBalanceChartFromCurrent tz now transfers userAddress currentBalance
      in \<lparr>txData = dailyTx, chartData = balanceChart,
          stats = \<lparr>st_address = take 6 userAddress @ ''...'' @ drop (length userAddress - 4) userAddress,
            st_totalReceived = received, st_totalSent = sent, st_netBalance = currentBalance,
            st_totalTransactions = length transfers,
            st_receiveCount = length (filter (\<lambda>tx. toLowerCase (orElse (tx_to tx) []) = toLowerCase userAddress) transfers),
            st_sendCount = length (filter (\<lambda>tx. toLowerCase (orElse (tx_from tx) []) = toLowerCase userAddress) transfers),
            st_currentBalance = currentBalance,
            st_balanceTenDaysAgo = balanceTenDaysAgo a,
            st_netChange = netChangeLast10Days,
            st_netChangeLast10Days = netChangeLast10Days,
            st_buySharesTotal = buySharesTotal a,
            st_buySharesCount = buySharesCount a,
            st_activeStreak = activeStreak,
            st_walletCreatedDate = created\<rparr>\<rparr>)"

section \<open>The proxy handlers\<close>

text \<open>
  The environment holds the two variables the handlers read.  The query string parameters
  are the own properties of an object, listed in the order \<open>URLSearchParams\<close> enumerates
  them; \<open>None\<close> is an event without them.  The upstream is a function from the URL fetched
  to what \<open>fetch\<close> and \<open>text\<close> produce: a rejection with the error's message, or a response.
\<close>

record env =
  ETHERSCAN_API_KEY :: "string option"
  ETHERSCAN_V2_BASE :: "string option"

datatype fetched = Rejected "string option" | Response bool int string

datatype body = ErrorJson string | Text string

text \<open>What an invocation does: the response it returns and the URL it has fetched, if any.\<close>

record outcome =
  statusCode :: int
  jsonHeader :: bool
  respBody :: body
  fetchedUrl :: "string option"

definition lookupParam :: "(string \<times> string) list \<Rightarrow> string \<Rightarrow> string option" where
  "lookupParam qs name = map_of qs name"

text \<open>\<open>params.set(name, value)\<close>: the first pair of that name takes the value and the others
  go; without such a pair, one is appended.\<close>

fun setParam :: "(string \<times> string) list \<Rightarrow> string \<Rightarrow> string \<Rightarrow> (string \<times> string) list" where
  "setParam [] name v = [(name, v)]"
| "setParam ((k, w) # ps) name v =
     (if k = name then (name, v) # filter (\<lambda>p. fst p \<noteq> name) ps else (k, w) # setParam ps name v)"

text \<open>The \<open>application/x-www-form-urlencoded\<close> serializer behind \<open>params.toString()\<close>.\<close>

definition hexDigit :: "nat \<Rightarrow> char" where
  "hexDigit n = ''0123456789ABCDEF'' ! n"

definition percentByte :: "nat \<Rightarrow> string" where
  "percentByte b = [CHR ''%'', hexDigit (b div 16), hexDigit (b mod 16)]"

definition encodeChar :: "char \<Rightarrow> string" where
  "encodeChar c = (let n = (of_char c :: nat) in
     if n = 32 then ''+''
     else if (48 \<le> n \<and> n \<le> 57) \<or> (65 \<le> n \<and> n \<le> 90) \<or> (97 \<le> n \<and> n \<le> 122)
             \<or> n = 42 \<or> n = 45 \<or> n = 46 \<or> n = 95 then [c]
     else if n < 128 then percentByte n
     else percentByte (192 + n div 64) @ percentByte (128 + n mod 64))"

definition encodeString :: "string \<Rightarrow> string" where
  "encodeString s = concat (map encodeChar s)"

fun paramsToString :: "(string \<times> string) list \<Rightarrow> string" where
  "paramsToString [] = []"
| "paramsToString [(k, v)] = encodeString k @ ''='' @ encodeString v"
| "paramsToString ((k, v) # p # ps) = encodeString k @ ''='' @ encodeString v @ ''&'' @ paramsToString (p # ps)"

definition falsyString :: "string option \<Rightarrow> bool" where
  "falsyString x = (x = None \<or> x = Some [])"

text \<open>The part both handlers share, from \<open>fetch(targetUrl)\<close> on, with its \<open>catch\<close>.\<close>

definition forward :: "(string \<Rightarrow> fetched) \<Rightarrow> string \<Rightarrow> outcome" where
  "forward upstream targetUrl = (case upstream targetUrl of
       Rejected msg \<Rightarrow> \<lparr>statusCode = 500, jsonHeader = False,
         respBody = ErrorJson (orElse msg ''Proxy error''), fetchedUrl = Some targetUrl\<rparr>
     | Response ok status text \<Rightarrow> \<lparr>statusCode = (if ok then 200 else status), jsonHeader = True,
         respBody = Text text, fetchedUrl = Some targetUrl\<rparr>)"

text \<open>The base URL both handlers have as a literal.\<close>

definition defaultBase :: string where
  "defaultBase = ''https://api.etherscan.io/v2/api''"

text \<open>\<open>event.queryStringParameters || {}\<close>.\<close>

definition queryOf :: "(string \<times> string) list option \<Rightarrow> (string \<times> string) list" where
  "queryOf queryStringParameters = (case queryStringParameters of None \<Rightarrow> [] | Some q \<Rightarrow> q)"

text \<open>\<open>params\<close> after \<open>params.set("apikey", ETHERSCAN_KEY)\<close>.\<close>

definition targetParams :: "env \<Rightarrow> (string \<times> string) list option \<Rightarrow> (string \<times> string) list" where
  "targetParams e queryStringParameters =
     setParam (queryOf queryStringParameters) ''apikey'' (the (ETHERSCAN_API_KEY e))"

text \<open>\<open>netlify/functions/etherscan-proxy.js\<close>.\<close>

definition handler :: "env \<Rightarrow> (string \<Rightarrow> fetched) \<Rightarrow> (string \<times> string) list option \<Rightarrow> outcome" where
  "handler e upstream queryStringParameters =
     (if falsyString (ETHERSCAN_API_KEY e) then
        \<lparr>statusCode = 500, jsonHeader = False,
         respBody = ErrorJson ''Missing ETHERSCAN_API_KEY on server'', fetchedUrl = None\<rparr>
      else
        (let qs = queryOf queryStringParameters in
         if falsyString (lookupParam qs ''module'') \<or> falsyString (lookupParam qs ''action'') then
           \<lparr>statusCode = 400, jsonHeader = False,
            respBody = ErrorJson ''Missing required query parameters: module and action'',
            fetchedUrl = None\<rparr>
         else
           (let params = targetParams e queryStringParameters;
                base = orElse (ETHERSCAN_V2_BASE e) defaultBase;
                targetUrl = base @ ''?'' @ paramsToString params
            in forward upstream targetUrl)))"

text \<open>The second copy of the handler (the unnamed source file \<open>part_000\<close>).\<close>

definition handler_part_000 :: "env \<Rightarrow> (string \<Rightarrow> fetched) \<Rightarrow> (string \<times> string) list option \<Rightarrow> outcome" where
  "handler_part_000 e upstream queryStringParameters =
     (if falsyString (ETHERSCAN_API_KEY e) then
        \<lparr>statusCode = 500, jsonHeader = False,
         respBody = ErrorJson ''Server missing ETHERSCAN_API_KEY'', fetchedUrl = None\<rparr>
      else
        (let params = targetParams e queryStringParameters;
             targetUrl = defaultBase @ ''?'' @ paramsToString params
         in forward upstream targetUrl))"

text \<open>Two queries that differ at most in the values they give for \<open>apikey\<close>.\<close>

definition blankParam :: "string \<Rightarrow> string \<times> string \<Rightarrow> string \<times> string" where
  "blankParam name p = (if fst p = name then (name, []) else p)"

definition sameButApikey :: "(string \<times> string) list option \<Rightarrow> (string \<times> string) list option \<Rightarrow> bool" where
  "sameButApikey q1 q2 =
     (map (blankParam ''apikey'') (queryOf q1) = map (blankParam ''apikey'') (queryOf q2))"

text \<open>The values a parameter list holds for a name.\<close>

definition valuesOf :: "(string \<times> string) list \<Rightarrow> string \<Rightarrow> string list" where
  "valuesOf ps name = map snd (filter (\<lambda>p. fst p = name) ps)"

text \<open>Values for examples: an upstream that answers every request the same way, and two
  environments, with and without the credential.\<close>

definition upstreamOk :: "string \<Rightarrow> fetched" where
  "upstreamOk url = Response True 200 ''{}''"

definition envWithKey :: env where
  "envWithKey = \<lparr>ETHERSCAN_API_KEY = Some ''SECRET'', ETHERSCAN_V2_BASE = None\<rparr>"

definition envWithoutKey :: env where
  "envWithoutKey = \<lparr>ETHERSCAN_API_KEY = None, ETHERSCAN_V2_BASE = None\<rparr>"

section \<open>Example inputs\<close>

definition addrA :: string where
  "addrA = ''0x1111111111111111111111111111111111111111''"

definition addrB :: string where
  "addrB = ''0x2222222222222222222222222222222222222222''"

text \<open>A clock value: 3 November 2026, 10:00 UTC.\<close>

definition exampleNow :: int where
  "exampleNow = 1793700000000"

text \<open>A transfer of 5 units of a token that has no decimal places.\<close>

definition txZeroDecimals :: transfer where
  "txZeroDecimals = \<lparr>tx_from = Some addrA, tx_to = Some addrB, tx_value = Some ''5'',
     tokenDecimal = Some ''0'', timeStamp = Some ''1700000000'', functionName = None\<rparr>"

text \<open>A transfer whose time stamp is in milliseconds (14 November 2023).\<close>

definition txMillis :: transfer where
  "txMillis = \<lparr>tx_from = Some addrA, tx_to = Some addrB, tx_value = Some ''5000000000000000000'',
     tokenDecimal = Some ''18'', timeStamp = Some ''1700000000000'', functionName = None\<rparr>"

text \<open>A transfer of 5 tokens from an account to itself, in 2023.\<close>

definition txSelf :: transfer where
  "txSelf = \<lparr>tx_from = Some addrA, tx_to = Some addrA, tx_value = Some ''5000000000000000000'',
     tokenDecimal = Some ''18'', timeStamp = Some ''1700000000'', functionName = None\<rparr>"


text \<open>A transfer of 1 token to \<open>addrA\<close> on 3 November 2026, the day of \<open>exampleNow\<close>.\<close>

definition txToday :: transfer where
  "txToday = \<lparr>tx_from = Some addrB, tx_to = Some addrA, tx_value = Some ''1000000000000000000'',
     tokenDecimal = Some ''18'', timeStamp = Some ''1793690000'', functionName = None\<rparr>"

section \<open>Notions used to state the properties\<close>





text \<open>
  The parser of \<open>application/x-www-form-urlencoded\<close> text, as the URL standard gives it and
  as the upstream reads the query of the URL it is sent: the text is split at every \<open>&\<close>,
  empty pieces are dropped, a piece is split at its first \<open>=\<close>, in name and value \<open>+\<close>
  stands for a space and \<open>%XY\<close> for a byte, and the bytes are read as UTF-8 (here up to the
  two-byte sequences of the code points below 256).
\<close>

fun splitOn :: "char \<Rightarrow> string \<Rightarrow> string list" where
  "splitOn sep [] = [[]]"
| "splitOn sep (c # cs) =
     (if c = sep then [] # splitOn sep cs
      else (case splitOn sep cs of p # ps \<Rightarrow> (c # p) # ps | [] \<Rightarrow> [[c]]))"

fun percentDecode :: "string \<Rightarrow> nat list" where
  "percentDecode [] = []"
| "percentDecode (c # cs) =
     (if c = CHR ''+'' then 32 # percentDecode cs
      else if c = CHR ''%'' then
        (case cs of
           h1 # h2 # rest \<Rightarrow>
             (case digitValue h1 of
                None \<Rightarrow> 37 # percentDecode cs
              | Some a \<Rightarrow>
                  (case digitValue h2 of
                     None \<Rightarrow> 37 # percentDecode cs
                   | Some b \<Rightarrow> (16 * a + b) # percentDecode rest))
         | _ \<Rightarrow> 37 # percentDecode cs)
      else of_char c # percentDecode cs)"

fun utf8Decode :: "nat list \<Rightarrow> string" where
  "utf8Decode [] = []"
| "utf8Decode [b] = [char_of b]"
| "utf8Decode (b1 # b2 # bs) =
     (if (b1 = 194 \<or> b1 = 195) \<and> 128 \<le> b2 \<and> b2 < 192
      then char_of ((b1 - 192) * 64 + (b2 - 128)) # utf8Decode bs
      else char_of b1 # utf8Decode (b2 # bs))"

definition decodeString :: "string \<Rightarrow> string" where
  "decodeString s = utf8Decode (percentDecode s)"

definition parsePair :: "string \<Rightarrow> string \<times> string" where
  "parsePair p = (decodeString (takeWhile (\<lambda>c. c \<noteq> CHR ''='') p),
     decodeString (drop 1 (dropWhile (\<lambda>c. c \<noteq> CHR ''='') p)))"

definition parseQuery :: "string \<Rightarrow> (string \<times> string) list" where
  "parseQuery s = map parsePair (filter (\<lambda>p. p \<noteq> []) (splitOn (CHR ''&'') s))"

text \<open>The query of a URL: what stands between its first \<open>?\<close> and its fragment.\<close>

definition urlQuery :: "string \<Rightarrow> string" where
  "urlQuery url = drop 1 (dropWhile (\<lambda>c. c \<noteq> CHR ''?'') (takeWhile (\<lambda>c. c \<noteq> CHR ''#'') url))"

text \<open>A base URL without a query or a fragment of its own.\<close>

definition plainBase :: "string \<Rightarrow> bool" where
  "plainBase base = (CHR ''?'' \<notin> set base \<and> CHR ''#'' \<notin> set base)"

text \<open>The UTF-8 bytes of a code point below 256, and the characters the serializer writes.\<close>

definition utf8Bytes :: "nat \<Rightarrow> nat list" where
  "utf8Bytes n = (if n < 128 then [n] else [192 + n div 64, 128 + n mod 64])"

definition urlSafe :: "char \<Rightarrow> bool" where
  "urlSafe c = (let n = (of_char c :: nat) in
     n = 43 \<or> n = 37 \<or> (48 \<le> n \<and> n \<le> 57) \<or> (65 \<le> n \<and> n \<le> 90) \<or> (97 \<le> n \<and> n \<le> 122)
     \<or> n = 42 \<or> n = 45 \<or> n = 46 \<or> n = 95)"

text \<open>One serialized pair.\<close>

definition pairString :: "string \<Rightarrow> string \<Rightarrow> string" where
  "pairString k v = encodeString k @ CHR ''='' # encodeString v"

text \<open>Two queries for the examples, which differ in the \<open>apikey\<close> the client sends, and the
  URL fetched for them.\<close>

definition queryMine :: "(string \<times> string) list option" where
  "queryMine = Some [(''module'', ''acc&apikey=evil''), (''apikey'', ''mine''), (''action'', ''tokentx'')]"

definition queryYours :: "(string \<times> string) list option" where
  "queryYours = Some [(''module'', ''acc&apikey=evil''), (''apikey'', ''yours''), (''action'', ''tokentx'')]"

definition urlFetched :: string where
  "urlFetched = defaultBase @ ''?module=acc%26apikey%3Devil&apikey=SECRET&action=tokentx''"












text \<open>The key the streak loop tests for its current date, and the key of a transfer.\<close>

definition checkKey :: "int \<Rightarrow> jsdate \<Rightarrow> string" where
  "checkKey tz currentDate = yearMonthDayKey tz (setHours tz 0 0 0 0 currentDate)"

definition activeKey :: "int \<Rightarrow> transfer \<Rightarrow> string" where
  "activeKey tz tx = yearMonthDayKey tz (newDate (toMs (timeStamp tx)))"

text \<open>
  The number of consecutive days, counted backwards from a date in steps of 24 hours, whose
  key is in a set of keys; at most \<open>fuel\<close> days are looked at.
\<close>

fun consecutiveDays :: "int \<Rightarrow> string set \<Rightarrow> nat \<Rightarrow> jsdate \<Rightarrow> nat" where
  "consecutiveDays tz keys 0 d = 0"
| "consecutiveDays tz keys (Suc fuel) d =
     (if checkKey tz d \<in> keys then Suc (consecutiveDays tz keys fuel (oneDayBefore d)) else 0)"

text \<open>The keys of today and of yesterday, for a clock value \<open>now\<close>.\<close>

definition todayKey :: "int \<Rightarrow> int \<Rightarrow> string" where
  "todayKey tz now = yearMonthDayKey tz (newDate (Fin (of_int now)))"

definition yesterdayKey :: "int \<Rightarrow> int \<Rightarrow> string" where
  "yesterdayKey tz now = yearMonthDayKey tz (newDate (Fin (of_int (now - msPerDay))))"

section \<open>Evaluation at concrete inputs\<close>

lemma truncNum_of_int: "truncNum (of_int i) = i"
  by (simp add: truncNum_def)

lemma newDate_of_int:
  "newDate (Fin (of_int i)) = (if \<bar>i\<bar> \<le> maxTime then Some i else None)"
proof -
  have "(\<bar>rat_of_int i\<bar> \<le> rat_of_int maxTime) = (\<bar>i\<bar> \<le> maxTime)"
    by (metis of_int_abs of_int_le_iff)
  then show ?thesis
    by (simp add: newDate_def truncNum_of_int)
qed

lemma newDate_numeral:
  "newDate (Fin (numeral k)) = (if numeral k \<le> maxTime then Some (numeral k) else None)"
  using newDate_of_int[of "numeral k"] by simp

text \<open>
  Claim C4 (the value normalizer defaults the decimals to 18 exactly when the field is absent
  or fails to parse): the code falls short of it.  The field \<open>"0"\<close> parses, to 0, and the
  code still takes 18 decimals, because \<open>|| 18\<close> replaces every falsy result: 5 units of a
  token without decimal places come out as \<open>5 / 10^18\<close>.
\<close>

theorem parseValue_zero_decimals:
  "parseInt10 ''0'' = Some 0 \<and> decimalsOf txZeroDecimals = 18 \<and>
   parseValue txZeroDecimals = Fin (5 / 10 ^ 18)"
proof -
  have a: "parseInt10 ''0'' = Some 0" by code_simp
  have b: "decimalsOf txZeroDecimals = 18" by code_simp
  have c: "parseValue txZeroDecimals = Fin (5 / 10 ^ 18)" by code_simp
  from a b c show ?thesis by (intro conjI)
qed

text \<open>
  Claim C7 (the wallet creation date is the calendar date of the earliest transfer, its time
  stamp read under the seconds-or-milliseconds rule): the code falls short of it.  It
  multiplies \<open>parseInt(timeStamp)\<close> by 1000 whatever the length, so a time stamp in
  milliseconds, which \<open>toMs\<close> places on 14 November 2023, gives a date in the year 55840.
\<close>

theorem walletCreatedDate_of_milliseconds:
  "toMs (timeStamp txMillis) = Fin 1700000000000 \<and>
   toLocaleDateString 0 (newDate (toMs (timeStamp txMillis))) = ''11/14/2023'' \<and>
   walletCreatedDate 0 [txMillis] = ''11/8/55840''"
proof -
  have t: "toMs (timeStamp txMillis) = Fin 1700000000000" by code_simp
  have d: "newDate (Fin 1700000000000) = Some 1700000000000"
    by (simp add: newDate_numeral maxTime_def)
  have l: "toLocaleDateString 0 (Some 1700000000000) = ''11/14/2023''" by code_simp
  have f: "firstTx [txMillis] = Some txMillis"
    by (simp add: firstTx_def firstTxStep_def)
  have p: "js_mul (parseIntTimeStamp txMillis) (Fin 1000) = Fin 1700000000000000" by code_simp
  have d': "newDate (Fin 1700000000000000) = Some 1700000000000000"
    by (simp add: newDate_numeral maxTime_def)
  have l': "toLocaleDateString 0 (Some 1700000000000000) = ''11/8/55840''" by code_simp
  have w: "walletCreatedDate 0 [txMillis] = ''11/8/55840''"
    unfolding walletCreatedDate_def f option.case p d' l' ..
  have m: "toLocaleDateString 0 (newDate (toMs (timeStamp txMillis))) = ''11/14/2023''"
    unfolding t d l ..
  from t m w show ?thesis by (intro conjI)
qed

lemma stats_fields:
  "st_currentBalance (stats (processTransactionData tz now ts u)) = js_sub (totalReceived ts u) (totalSent ts u)"
  "st_balanceTenDaysAgo (stats (processTransactionData tz now ts u)) = balanceTenDaysAgo (foldl (statsStep now u) accum0 ts)"
  "st_netChangeLast10Days (stats (processTransactionData tz now ts u)) =
     js_sub (receivedLast10Days (foldl (statsStep now u) accum0 ts)) (sentLast10Days (foldl (statsStep now u) accum0 ts))"
  by (simp_all add: processTransactionData_def Let_def)

text \<open>
  Claim C9 (with every time stamp valid, the current balance is the balance ten days ago plus
  the net change of the last ten days): the code falls short of it.  A transfer from the
  subject to itself counts as received and as sent in the totals, so the current balance is
  0, and only as received in the loop, so the balance ten days ago is 5.
\<close>

theorem self_transfer_breaks_balance_identity:
  "\<not> isNaN (toMs (timeStamp txSelf)) \<and>
   st_currentBalance (stats (processTransactionData 0 exampleNow [txSelf] addrA)) = Fin 0 \<and>
   st_balanceTenDaysAgo (stats (processTransactionData 0 exampleNow [txSelf] addrA)) = Fin 5 \<and>
   st_netChangeLast10Days (stats (processTransactionData 0 exampleNow [txSelf] addrA)) = Fin 0"
proof -
  have n: "\<not> isNaN (toMs (timeStamp txSelf))" by code_simp
  have r: "totalReceived [txSelf] addrA = Fin 5" by code_simp
  have s: "totalSent [txSelf] addrA = Fin 5" by code_simp
  have a: "foldl (statsStep exampleNow addrA) accum0 [txSelf] =
      \<lparr>balanceTenDaysAgo = Fin 5, receivedLast10Days = Fin 0, sentLast10Days = Fin 0,
       buySharesTotal = Fin 0, buySharesCount = 0\<rparr>"
    by code_simp
  from n show ?thesis
    unfolding stats_fields r s a by (simp add: js_sub_def)
qed

section \<open>The daily aggregator: properties\<close>

lemma js_sub_zero [simp]: "js_sub (Fin 0) (Fin 0) = Fin 0"
  by (simp add: js_sub_def)

lemma emptyBucket_sel [simp]:
  "day (emptyBucket k) = k" "received (emptyBucket k) = Fin 0"
  "sent (emptyBucket k) = Fin 0" "net (emptyBucket k) = Fin 0"
  by (simp_all add: emptyBucket_def)



















section \<open>The balance reconstructor: properties\<close>















































section \<open>Properties of the proxy handlers\<close>

lemma blankParam_eq:
  "blankParam name a = blankParam name b \<Longrightarrow> fst a = fst b \<and> (fst a \<noteq> name \<longrightarrow> a = b)"
  by (cases a; cases b) (auto simp: blankParam_def split: if_splits)

lemma filter_blank:
  "map (blankParam name) ps = map (blankParam name) qs \<Longrightarrow>
   filter (\<lambda>p. fst p \<noteq> name) ps = filter (\<lambda>p. fst p \<noteq> name) qs"
proof (induction ps qs rule: list_induct2')
  case (4 a ps b qs)
  then have h: "blankParam name a = blankParam name b"
    and t: "map (blankParam name) ps = map (blankParam name) qs"
    by simp_all
  from 4(1)[OF t] blankParam_eq[OF h] show ?case
    by (cases "fst a = name") simp_all
qed simp_all

lemma setParam_blank:
  "map (blankParam name) ps = map (blankParam name) qs \<Longrightarrow> setParam ps name v = setParam qs name v"
proof (induction ps qs rule: list_induct2')
  case (4 a ps b qs)
  then have h: "blankParam name a = blankParam name b"
    and t: "map (blankParam name) ps = map (blankParam name) qs"
    by simp_all
  obtain k w where a: "a = (k, w)" by (cases a)
  obtain k' w' where b: "b = (k', w')" by (cases b)
  from 4(1)[OF t] blankParam_eq[OF h] filter_blank[OF t] a b show ?case
    by (cases "k = name") simp_all
qed simp_all

lemma lookup_blank:
  "map (blankParam name) ps = map (blankParam name) qs \<Longrightarrow> k \<noteq> name \<Longrightarrow>
   lookupParam ps k = lookupParam qs k"
proof (induction ps qs rule: list_induct2')
  case (4 a ps b qs)
  then have h: "blankParam name a = blankParam name b"
    and t: "map (blankParam name) ps = map (blankParam name) qs"
    by simp_all
  obtain k1 w where a: "a = (k1, w)" by (cases a)
  obtain k' w' where b: "b = (k', w')" by (cases b)
  from 4(1)[OF t 4(3)] blankParam_eq[OF h] a b 4(3) show ?case
    by (cases "k1 = name") (simp_all add: lookupParam_def)
qed simp_all

lemma of_char_less: "(of_char c :: nat) < 256"
  by (metis of_char_mod_256 mod_less_divisor zero_less_numeral)

lemma byte1_less: "(n :: nat) < 256 \<Longrightarrow> 192 + n div 64 < 256"
proof -
  assume "n < 256"
  then have "n div 64 \<le> 255 div 64" by (intro div_le_mono) simp
  then show ?thesis by simp
qed

lemma byte2_less: "128 + (n :: nat) mod 64 < 256"
proof -
  have "n mod 64 < 64" by simp
  then show ?thesis by linarith
qed

lemma lead_byte: "(n :: nat) < 256 \<Longrightarrow> \<not> n < 128 \<Longrightarrow> n div 64 = 2 \<or> n div 64 = 3"
proof -
  assume a: "n < 256" "\<not> n < 128"
  then have "n div 64 \<le> 255 div 64" by (intro div_le_mono) simp
  moreover from a have "128 div 64 \<le> n div 64" by (intro div_le_mono) simp
  ultimately show ?thesis by simp linarith
qed

lemma hexDigit_all:
  "list_all (\<lambda>n. digitValue (hexDigit n) = Some n \<and> urlSafe (hexDigit n)) [0..<16]"
  by code_simp

lemma hexDigit_ok: "n < 16 \<Longrightarrow> digitValue (hexDigit n) = Some n \<and> urlSafe (hexDigit n)"
  using hexDigit_all by (simp add: list_all_iff)

lemma urlSafe_special:
  "\<not> urlSafe (CHR ''&'')" "\<not> urlSafe (CHR ''='')" "\<not> urlSafe (CHR ''?'')" "\<not> urlSafe (CHR ''#'')"
  "urlSafe (CHR ''+'')" "urlSafe (CHR ''%'')"
  by (simp_all add: urlSafe_def)

lemma percentDecode_percentByte:
  assumes "b < 256"
  shows "percentDecode (percentByte b @ rest) = b # percentDecode rest"
proof -
  from assms have "b div 16 < 16" by simp
  then have h1: "digitValue (hexDigit (b div 16)) = Some (b div 16)" by (simp add: hexDigit_ok)
  have h2: "digitValue (hexDigit (b mod 16)) = Some (b mod 16)" by (simp add: hexDigit_ok)
  show ?thesis by (simp add: percentByte_def h1 h2)
qed

lemma urlSafe_percentByte: "b < 256 \<Longrightarrow> \<forall>c \<in> set (percentByte b). urlSafe c"
proof -
  assume "b < 256"
  then have "b div 16 < 16" by simp
  then show ?thesis
    by (simp add: percentByte_def hexDigit_ok urlSafe_special)
qed

lemma percentDecode_plain:
  "c \<noteq> CHR ''+'' \<Longrightarrow> c \<noteq> CHR ''%'' \<Longrightarrow> percentDecode (c # rest) = of_char c # percentDecode rest"
  by simp

lemma percentDecode_encodeChar:
  "percentDecode (encodeChar c @ rest) = utf8Bytes (of_char c) @ percentDecode rest"
proof -
  let ?n = "of_char c :: nat"
  have lt: "?n < 256" by (rule of_char_less)
  consider (space) "?n = 32"
    | (plain) "?n \<noteq> 32" "(48 \<le> ?n \<and> ?n \<le> 57) \<or> (65 \<le> ?n \<and> ?n \<le> 90) \<or> (97 \<le> ?n \<and> ?n \<le> 122)
             \<or> ?n = 42 \<or> ?n = 45 \<or> ?n = 46 \<or> ?n = 95"
    | (low) "?n \<noteq> 32" "\<not> ((48 \<le> ?n \<and> ?n \<le> 57) \<or> (65 \<le> ?n \<and> ?n \<le> 90) \<or> (97 \<le> ?n \<and> ?n \<le> 122)
             \<or> ?n = 42 \<or> ?n = 45 \<or> ?n = 46 \<or> ?n = 95)" "?n < 128"
    | (high) "?n \<noteq> 32" "\<not> ((48 \<le> ?n \<and> ?n \<le> 57) \<or> (65 \<le> ?n \<and> ?n \<le> 90) \<or> (97 \<le> ?n \<and> ?n \<le> 122)
             \<or> ?n = 42 \<or> ?n = 45 \<or> ?n = 46 \<or> ?n = 95)" "\<not> ?n < 128"
    by blast
  then show ?thesis
  proof cases
    case space
    then have "encodeChar c = ''+''" by (simp add: encodeChar_def)
    with space show ?thesis by (simp add: utf8Bytes_def)
  next
    case plain
    then have e: "encodeChar c = [c]" by (auto simp: encodeChar_def Let_def)
    from plain have "?n \<noteq> 43" "?n \<noteq> 37" by auto
    then have "c \<noteq> CHR ''+''" "c \<noteq> CHR ''%''" by auto
    then have "percentDecode (c # rest) = ?n # percentDecode rest" by (rule percentDecode_plain)
    moreover from plain have "?n < 128" by auto
    ultimately show ?thesis by (simp add: e utf8Bytes_def)
  next
    case low
    then have e: "encodeChar c = percentByte ?n" by (auto simp: encodeChar_def Let_def)
    from low(3) show ?thesis
      unfolding e by (simp add: percentDecode_percentByte[OF lt] utf8Bytes_def)
  next
    case high
    then have e: "encodeChar c = percentByte (192 + ?n div 64) @ percentByte (128 + ?n mod 64)"
      by (auto simp: encodeChar_def Let_def)
    from lt have b1: "192 + ?n div 64 < 256" by (rule byte1_less)
    have b2: "128 + ?n mod 64 < 256" by (rule byte2_less)
    have "percentDecode ((percentByte (192 + ?n div 64) @ percentByte (128 + ?n mod 64)) @ rest)
        = (192 + ?n div 64) # (128 + ?n mod 64) # percentDecode rest"
      by (simp only: append_assoc percentDecode_percentByte[OF b1] percentDecode_percentByte[OF b2])
    with high(3) show ?thesis
      unfolding e by (simp add: utf8Bytes_def)
  qed
qed

lemma urlSafe_encodeChar: "\<forall>x \<in> set (encodeChar c). urlSafe x"
proof -
  let ?n = "of_char c :: nat"
  have lt: "?n < 256" by (rule of_char_less)
  then have b1: "192 + ?n div 64 < 256" by (rule byte1_less)
  have b2: "128 + ?n mod 64 < 256" by (rule byte2_less)
  show ?thesis
    using urlSafe_percentByte[OF lt] urlSafe_percentByte[OF b1] urlSafe_percentByte[OF b2]
    by (auto simp: encodeChar_def Let_def urlSafe_special) (auto simp: urlSafe_def)
qed

lemma urlSafe_encodeString: "\<forall>x \<in> set (encodeString s). urlSafe x"
  using urlSafe_encodeChar by (auto simp: encodeString_def)

lemma percentDecode_encodeString:
  "percentDecode (encodeString s @ rest) = concat (map (\<lambda>c. utf8Bytes (of_char c)) s) @ percentDecode rest"
  by (induction s) (simp_all add: encodeString_def percentDecode_encodeChar)

lemma utf8Decode_utf8Bytes:
  "utf8Decode (utf8Bytes (of_char c) @ bs) = c # utf8Decode bs"
proof (cases "(of_char c :: nat) < 128")
  case True
  then show ?thesis
    by (cases bs) (simp_all add: utf8Bytes_def)
next
  case False
  let ?n = "of_char c :: nat"
  have lt: "?n < 256" by (rule of_char_less)
  with False have d: "?n div 64 = 2 \<or> ?n div 64 = 3" by (simp add: lead_byte)
  have "(192 + ?n div 64 - 192) * 64 + (128 + ?n mod 64 - 128) = ?n" by simp
  then have "char_of ((192 + ?n div 64 - 192) * 64 + (128 + ?n mod 64 - 128)) = c"
    by (simp only: char_of_char)
  with False d show ?thesis
    by (auto simp: utf8Bytes_def)
qed

lemma utf8Decode_concat:
  "utf8Decode (concat (map (\<lambda>c. utf8Bytes (of_char c)) s)) = s"
proof (induction s)
  case Nil
  show ?case by simp
next
  case (Cons c s)
  then show ?case by (simp add: utf8Decode_utf8Bytes)
qed

lemma decodeString_encodeString: "decodeString (encodeString s) = s"
  using percentDecode_encodeString[of s "[]"] by (simp add: decodeString_def utf8Decode_concat)

lemma splitOn_none: "sep \<notin> set a \<Longrightarrow> splitOn sep a = [a]"
  by (induction a) auto

lemma splitOn_first: "sep \<notin> set a \<Longrightarrow> splitOn sep (a @ sep # r) = a # splitOn sep r"
  by (induction a) auto

lemma paramsToString_Cons:
  "paramsToString ((k, v) # ps) = (if ps = [] then pairString k v else pairString k v @ CHR ''&'' # paramsToString ps)"
  by (cases ps) (auto simp: pairString_def)

lemma encodeString_free: "\<not> urlSafe x \<Longrightarrow> x \<notin> set (encodeString s)"
  using urlSafe_encodeString by blast

lemma pairString_amp: "CHR ''&'' \<notin> set (pairString k v)"
  by (simp add: pairString_def encodeString_free urlSafe_special)

lemma pairString_safe: "x \<in> set (pairString k v) \<Longrightarrow> urlSafe x \<or> x = CHR ''=''"
  using urlSafe_encodeString by (auto simp: pairString_def)

lemma parsePair_pairString: "parsePair (pairString k v) = (k, v)"
proof -
  have n: "\<forall>x \<in> set (encodeString k). x \<noteq> CHR ''=''"
    using encodeString_free[OF urlSafe_special(2)] by blast
  have t: "takeWhile (\<lambda>c. c \<noteq> CHR ''='') (encodeString k @ CHR ''='' # encodeString v) = encodeString k"
    using n by (simp add: takeWhile_tail)
  have d: "dropWhile (\<lambda>c. c \<noteq> CHR ''='') (encodeString k @ CHR ''='' # encodeString v) = CHR ''='' # encodeString v"
    using n by (simp add: dropWhile_append3)
  show ?thesis
    by (simp add: parsePair_def pairString_def t d decodeString_encodeString)
qed

lemma pairString_nonempty: "pairString k v \<noteq> []"
  by (simp add: pairString_def)

lemma parseQuery_paramsToString: "parseQuery (paramsToString ps) = ps"
proof (induction ps)
  case Nil
  show ?case by (simp add: parseQuery_def)
next
  case (Cons p ps)
  obtain k v where p: "p = (k, v)" by (cases p)
  show ?case
  proof (cases "ps = []")
    case True
    then show ?thesis
      by (simp add: p paramsToString_Cons parseQuery_def splitOn_none[OF pairString_amp]
          pairString_nonempty parsePair_pairString)
  next
    case False
    have "parseQuery (pairString k v @ CHR ''&'' # paramsToString ps)
        = parsePair (pairString k v) # parseQuery (paramsToString ps)"
      by (simp add: parseQuery_def splitOn_first[OF pairString_amp] pairString_nonempty)
    with False Cons.IH show ?thesis
      by (simp add: p paramsToString_Cons parsePair_pairString)
  qed
qed

lemma paramsToString_safe:
  "x \<in> set (paramsToString ps) \<Longrightarrow> urlSafe x \<or> x = CHR ''='' \<or> x = CHR ''&''"
proof (induction ps)
  case Nil
  then show ?case by simp
next
  case (Cons p ps)
  obtain k v where p: "p = (k, v)" by (cases p)
  from Cons show ?case
    using pairString_safe[of x k v]
    by (cases "ps = []") (auto simp: p paramsToString_Cons)
qed

lemma urlQuery_append:
  assumes "plainBase base"
  shows "urlQuery (base @ ''?'' @ paramsToString ps) = paramsToString ps"
proof -
  from assms have b: "\<forall>x \<in> set base. x \<noteq> CHR ''#''" "\<forall>x \<in> set base. x \<noteq> CHR ''?''"
    by (auto simp: plainBase_def)
  have q: "\<forall>x \<in> set (paramsToString ps). x \<noteq> CHR ''#''"
    using paramsToString_safe urlSafe_special(4) by fastforce
  from b(1) q have "\<forall>x \<in> set (base @ ''?'' @ paramsToString ps). x \<noteq> CHR ''#''"
    by auto
  then have t: "takeWhile (\<lambda>c. c \<noteq> CHR ''#'') (base @ ''?'' @ paramsToString ps) = base @ ''?'' @ paramsToString ps"
    by (simp only: takeWhile_eq_all_conv)
  have d: "dropWhile (\<lambda>c. c \<noteq> CHR ''?'') (base @ CHR ''?'' # paramsToString ps) = CHR ''?'' # paramsToString ps"
    using b(2) by (simp add: dropWhile_append3)
  show ?thesis
    unfolding urlQuery_def t using d by simp
qed

lemma plainBase_default: "plainBase defaultBase"
  by code_simp

lemma setParam_values: "valuesOf (setParam ps name v) name = [v]"
  by (induction ps name v rule: setParam.induct) (simp_all add: valuesOf_def filter_empty_conv)

lemma forward_url: "fetchedUrl (forward upstream u) = Some u"
  by (simp add: forward_def split: fetched.splits)

lemma falsyString_Some: "\<not> falsyString x \<Longrightarrow> \<exists>key. x = Some key \<and> key \<noteq> []"
  by (cases x) (auto simp: falsyString_def)

lemma targetParams_apikey:
  "ETHERSCAN_API_KEY e = Some key \<Longrightarrow>
   valuesOf (parseQuery (paramsToString (targetParams e q))) ''apikey'' = [key]"
  by (simp add: parseQuery_paramsToString targetParams_def setParam_values)

lemma handler_fetches:
  assumes "fetchedUrl (handler e upstream q) = Some url"
  shows "\<not> falsyString (ETHERSCAN_API_KEY e) \<and>
    url = orElse (ETHERSCAN_V2_BASE e) defaultBase @ ''?'' @ paramsToString (targetParams e q)"
proof (cases "falsyString (ETHERSCAN_API_KEY e) \<or> falsyString (lookupParam (queryOf q) ''module'')
    \<or> falsyString (lookupParam (queryOf q) ''action'')")
  case True
  then have "fetchedUrl (handler e upstream q) = None"
    unfolding handler_def Let_def by auto
  with assms show ?thesis by simp
next
  case False
  then have "handler e upstream q =
      forward upstream (orElse (ETHERSCAN_V2_BASE e) defaultBase @ ''?'' @ paramsToString (targetParams e q))"
    unfolding handler_def Let_def by simp
  with assms forward_url False show ?thesis by simp
qed

lemma handler_part_000_fetches:
  assumes "fetchedUrl (handler_part_000 e upstream q) = Some url"
  shows "\<not> falsyString (ETHERSCAN_API_KEY e) \<and>
    url = defaultBase @ ''?'' @ paramsToString (targetParams e q)"
proof (cases "falsyString (ETHERSCAN_API_KEY e)")
  case True
  then have "fetchedUrl (handler_part_000 e upstream q) = None"
    unfolding handler_part_000_def by simp
  with assms show ?thesis by simp
next
  case False
  then have "handler_part_000 e upstream q =
      forward upstream (defaultBase @ ''?'' @ paramsToString (targetParams e q))"
    unfolding handler_part_000_def Let_def by simp
  with assms forward_url False show ?thesis by simp
qed

lemma sameButApikey_outcome:
  assumes s: "sameButApikey q1 q2"
  shows "handler e upstream q1 = handler e upstream q2
      \<and> handler_part_000 e upstream q1 = handler_part_000 e upstream q2"
proof -
  from s have m: "map (blankParam ''apikey'') (queryOf q1) = map (blankParam ''apikey'') (queryOf q2)"
    unfolding sameButApikey_def .
  have tp: "targetParams e q1 = targetParams e q2"
    unfolding targetParams_def by (rule setParam_blank[OF m])
  have l1: "lookupParam (queryOf q1) ''module'' = lookupParam (queryOf q2) ''module''"
    by (rule lookup_blank[OF m]) simp
  have l2: "lookupParam (queryOf q1) ''action'' = lookupParam (queryOf q2) ''action''"
    by (rule lookup_blank[OF m]) simp
  show ?thesis
    unfolding handler_def handler_part_000_def Let_def tp l1 l2 by (rule conjI; rule refl)
qed

text \<open>
  Claim C10: whenever a handler fetches a URL, the server has a credential, and the query of
  that URL, parsed as the upstream parses it, holds exactly one \<open>apikey\<close> parameter, whose
  value is the credential, whatever the client sent (for the handler that reads
  \<open>ETHERSCAN_V2_BASE\<close>: when that base has no query or fragment of its own); and two
  queries that differ only in the values they give for \<open>apikey\<close> make each handler fetch the
  same URL and return the same response.
\<close>

theorem proxy_forwards_server_apikey:
  "(fetchedUrl (handler e upstream q) = Some url \<longrightarrow>
      (\<exists>key. ETHERSCAN_API_KEY e = Some key \<and> key \<noteq> []
         \<and> url = orElse (ETHERSCAN_V2_BASE e) defaultBase @ ''?'' @ paramsToString (targetParams e q)
         \<and> valuesOf (parseQuery (paramsToString (targetParams e q))) ''apikey'' = [key]
         \<and> (plainBase (orElse (ETHERSCAN_V2_BASE e) defaultBase)
              \<longrightarrow> valuesOf (parseQuery (urlQuery url)) ''apikey'' = [key])))
   \<and> (fetchedUrl (handler_part_000 e upstream q) = Some url \<longrightarrow>
      (\<exists>key. ETHERSCAN_API_KEY e = Some key \<and> key \<noteq> []
         \<and> valuesOf (parseQuery (urlQuery url)) ''apikey'' = [key]))
   \<and> (sameButApikey q1 q2 \<longrightarrow>
      handler e upstream q1 = handler e upstream q2
      \<and> handler_part_000 e upstream q1 = handler_part_000 e upstream q2)"
proof (intro conjI impI)
  assume a: "fetchedUrl (handler e upstream q) = Some url"
  from handler_fetches[OF a] obtain key where k: "ETHERSCAN_API_KEY e = Some key" "key \<noteq> []"
    and u: "url = orElse (ETHERSCAN_V2_BASE e) defaultBase @ ''?'' @ paramsToString (targetParams e q)"
    using falsyString_Some by blast
  have v: "valuesOf (parseQuery (paramsToString (targetParams e q))) ''apikey'' = [key]"
    by (rule targetParams_apikey[OF k(1)])
  have w: "valuesOf (parseQuery (urlQuery url)) ''apikey'' = [key]"
    if "plainBase (orElse (ETHERSCAN_V2_BASE e) defaultBase)"
    unfolding u urlQuery_append[OF that] by (rule v)
  from k u v w show "\<exists>key. ETHERSCAN_API_KEY e = Some key \<and> key \<noteq> []
         \<and> url = orElse (ETHERSCAN_V2_BASE e) defaultBase @ ''?'' @ paramsToString (targetParams e q)
         \<and> valuesOf (parseQuery (paramsToString (targetParams e q))) ''apikey'' = [key]
         \<and> (plainBase (orElse (ETHERSCAN_V2_BASE e) defaultBase)
              \<longrightarrow> valuesOf (parseQuery (urlQuery url)) ''apikey'' = [key])"
    by (intro exI[of _ key] conjI impI)
next
  assume a: "fetchedUrl (handler_part_000 e upstream q) = Some url"
  from handler_part_000_fetches[OF a] obtain key where k: "ETHERSCAN_API_KEY e = Some key" "key \<noteq> []"
    and u: "url = defaultBase @ ''?'' @ paramsToString (targetParams e q)"
    using falsyString_Some by blast
  have "valuesOf (parseQuery (urlQuery url)) ''apikey'' = [key]"
    unfolding u urlQuery_append[OF plainBase_default] by (rule targetParams_apikey[OF k(1)])
  with k show "\<exists>key. ETHERSCAN_API_KEY e = Some key \<and> key \<noteq> []
         \<and> valuesOf (parseQuery (urlQuery url)) ''apikey'' = [key]"
    by (intro exI[of _ key] conjI)
next
  assume "sameButApikey q1 q2"
  then show "handler e upstream q1 = handler e upstream q2"
    by (rule sameButApikey_outcome[THEN conjunct1])
next
  assume "sameButApikey q1 q2"
  then show "handler_part_000 e upstream q1 = handler_part_000 e upstream q2"
    by (rule sameButApikey_outcome[THEN conjunct2])
qed

theorem proxy_forwards_server_apikey_witness:
  "sameButApikey queryMine queryYours
   \<and> fetchedUrl (handler envWithKey upstreamOk queryMine) = Some urlFetched
   \<and> fetchedUrl (handler_part_000 envWithKey upstreamOk queryMine) = Some urlFetched
   \<and> plainBase (orElse (ETHERSCAN_V2_BASE envWithKey) defaultBase)
   \<and> valuesOf (parseQuery (urlQuery urlFetched)) ''apikey'' = [''SECRET'']
   \<and> handler envWithKey upstreamOk queryMine = handler envWithKey upstreamOk queryYours
   \<and> handler_part_000 envWithKey upstreamOk queryMine = handler_part_000 envWithKey upstreamOk queryYours"
proof -
  have s: "sameButApikey queryMine queryYours"
    by code_simp
  have f1: "fetchedUrl (handler envWithKey upstreamOk queryMine) = Some urlFetched"
    by code_simp
  have f2: "fetchedUrl (handler_part_000 envWithKey upstreamOk queryMine) = Some urlFetched"
    by code_simp
  have p: "plainBase (orElse (ETHERSCAN_V2_BASE envWithKey) defaultBase)"
    by code_simp
  have k: "ETHERSCAN_API_KEY envWithKey = Some ''SECRET''"
    by (simp add: envWithKey_def)
  note t = proxy_forwards_server_apikey[of envWithKey upstreamOk queryMine urlFetched queryMine queryYours]
  from t f2 obtain key where "ETHERSCAN_API_KEY envWithKey = Some key"
    and v: "valuesOf (parseQuery (urlQuery urlFetched)) ''apikey'' = [key]"
    by blast
  with k have "key = ''SECRET''" by simp
  with v have v': "valuesOf (parseQuery (urlQuery urlFetched)) ''apikey'' = [''SECRET'']" by simp
  from t s have o: "handler envWithKey upstreamOk queryMine = handler envWithKey upstreamOk queryYours"
    "handler_part_000 envWithKey upstreamOk queryMine = handler_part_000 envWithKey upstreamOk queryYours"
    by blast+
  from s f1 f2 p v' o show ?thesis by (intro conjI)
qed

text \<open>
  Claim C8, as amended: when \<open>module\<close> or \<open>action\<close> is absent or empty, the handler of
  \<open>netlify/functions/etherscan-proxy.js\<close> fetches nothing; it answers 400 when the server
  has its credential, and 500 when it has not.
\<close>

theorem handler_rejects_incomplete_query:
  "falsyString (lookupParam (queryOf q) ''module'') \<or> falsyString (lookupParam (queryOf q) ''action'') \<Longrightarrow>
   fetchedUrl (handler e upstream q) = None \<and>
   statusCode (handler e upstream q) = (if falsyString (ETHERSCAN_API_KEY e) then 500 else 400)"
  unfolding handler_def Let_def by auto

theorem handler_rejects_incomplete_query_witness:
  "falsyString (lookupParam (queryOf (Some [(''action'', ''tokentx'')])) ''module'') \<and>
   fetchedUrl (handler envWithKey upstreamOk (Some [(''action'', ''tokentx'')])) = None \<and>
   statusCode (handler envWithKey upstreamOk (Some [(''action'', ''tokentx'')])) = 400"
proof -
  have h: "falsyString (lookupParam (queryOf (Some [(''action'', ''tokentx'')])) ''module'')"
    by (simp add: falsyString_def lookupParam_def queryOf_def)
  have k: "\<not> falsyString (ETHERSCAN_API_KEY envWithKey)"
    by (simp add: falsyString_def envWithKey_def)
  from handler_rejects_incomplete_query[of "Some [(''action'', ''tokentx'')]" envWithKey upstreamOk] h k
  show ?thesis by simp
qed

text \<open>
  Claim C8 as stated fails: a request without \<open>module\<close> is answered with 500 by the handler
  on a server without the credential, and the second copy of the handler forwards it.
\<close>

theorem handler_missing_module_not_400:
  "lookupParam (queryOf (Some [(''action'', ''tokentx'')])) ''module'' = None \<and>
   statusCode (handler envWithoutKey upstreamOk (Some [(''action'', ''tokentx'')])) = 500 \<and>
   statusCode (handler_part_000 envWithKey upstreamOk (Some [(''action'', ''tokentx'')])) = 200 \<and>
   fetchedUrl (handler_part_000 envWithKey upstreamOk (Some [(''action'', ''tokentx'')]))
     = Some ''https://api.etherscan.io/v2/api?action=tokentx&apikey=SECRET''"
  by code_simp

end
